theory Spec2Isabelle
  imports Complex_Main "HOL-Library.Word" "HOL-Library.AList"
begin

section \<open>Excel to MySQL migration: the data model\<close>

text \<open>
  The program is \<^verbatim>\<open>excel_to_mysql_migration.py\<close>: the class
  \<^verbatim>\<open>ExcelToMySQLMigrator\<close> with its methods \<^verbatim>\<open>infer_mysql_type\<close>,
  \<^verbatim>\<open>create_dtype_dict\<close>, \<^verbatim>\<open>clean_table_name\<close>,
  \<^verbatim>\<open>migrate_sheet_to_table\<close> and \<^verbatim>\<open>migrate_all\<close>.

  A Python \<^verbatim>\<open>str\<close> is a sequence of Unicode code points, and \<^verbatim>\<open>len\<close> counts
  code points; it is modelled as a list of code points (natural numbers). ASCII literals
  of the source are written with \<open>ascii\<close>.
\<close>

type_synonym codepoint = nat
type_synonym pystr = "codepoint list"

definition ascii :: "string \<Rightarrow> pystr" where
  "ascii s = map of_char s"

text \<open>
  The SQLAlchemy type objects the program returns (\<^verbatim>\<open>types.SMALLINT\<close>, ...,
  \<^verbatim>\<open>types.String(n)\<close>, \<^verbatim>\<open>types.DECIMAL(precision, scale)\<close>), and the further
  ones that \<^verbatim>\<open>column_types_config.py\<close> lists for explicit declarations.
\<close>

datatype sqltype =
    SMALLINT
  | INTEGER
  | BIGINT
  | DECIMAL nat nat
  | BOOLEAN
  | DATETIME
  | TEXT
  | String nat
  | DATE
  | FLOAT
  | DOUBLE
  | TIME
  | TIMESTAMP

text \<open>
  A pandas \<^verbatim>\<open>Series\<close>, by the dtype class that \<^verbatim>\<open>infer_mysql_type\<close> tests,
  in the order of its \<^verbatim>\<open>if\<close>/\<^verbatim>\<open>elif\<close> chain:
  \<^item> \<open>IntSeries\<close>: \<^verbatim>\<open>is_integer_dtype\<close>. \<^verbatim>\<open>pd.read_excel\<close> is called with its
    default (NumPy) backend, where an integer column holds integers only: a column with
    a missing cell is not of an integer dtype.
  \<^item> \<open>FloatSeries\<close>: \<^verbatim>\<open>is_float_dtype\<close>; a cell is the 64 bits of an IEEE double
    (\<^verbatim>\<open>NaN\<close> included). The program never looks at them.
  \<^item> \<open>BoolSeries\<close>: \<^verbatim>\<open>is_bool_dtype\<close>.
  \<^item> \<open>DatetimeSeries\<close>: \<^verbatim>\<open>is_datetime64_any_dtype\<close>; a cell is the 64-bit count of
    nanoseconds (\<^verbatim>\<open>NaT\<close> included). The program never looks at them.
  \<^item> \<open>ObjectSeries\<close>: every other dtype (\<^verbatim>\<open>object\<close>, strings, mixed values). The
    program reads such a column only through \<^verbatim>\<open>series.astype(str)\<close>, so a cell is given
    as what \<^verbatim>\<open>astype(str)\<close> makes of it: \<open>Some s\<close> for a cell rendered as the text
    \<open>s\<close>, \<open>None\<close> for a cell that is still missing afterwards. Which cells pandas
    leaves missing there is pandas' business (before pandas 3 an \<^verbatim>\<open>object\<close> column
    renders \<^verbatim>\<open>NaN\<close> as the text \<^verbatim>\<open>nan\<close>); the model covers both.
\<close>

datatype series =
    IntSeries "int list"
  | FloatSeries "64 word list"
  | BoolSeries "bool list"
  | DatetimeSeries "64 word list"
  | ObjectSeries "pystr option list"

fun len :: "series \<Rightarrow> nat" where
  "len (IntSeries xs) = length xs"
| "len (FloatSeries xs) = length xs"
| "len (BoolSeries xs) = length xs"
| "len (DatetimeSeries xs) = length xs"
| "len (ObjectSeries xs) = length xs"

text \<open>
  \<^verbatim>\<open>Series.max()\<close> skips missing cells and is \<^verbatim>\<open>NaN\<close> (here \<open>None\<close>) when no cell
  is left.
\<close>

fun series_max :: "'a::linorder option list \<Rightarrow> 'a option" where
  "series_max [] = None"
| "series_max (None # xs) = series_max xs"
| "series_max (Some x # xs) =
     (case series_max xs of None \<Rightarrow> Some x | Some m \<Rightarrow> Some (max x m))"

text \<open>\<^verbatim>\<open>.str.len()\<close>: the number of code points of each text, a missing cell stays missing.\<close>

definition str_len :: "pystr option list \<Rightarrow> nat option list" where
  "str_len cells = map (map_option length) cells"

section \<open>Type inference\<close>

text \<open>
  \<^verbatim>\<open>self.column_types_mapping\<close> is a dict from column names to type objects.

  In the text branch \<^verbatim>\<open>int(max_length * 1.5)\<close> is a floating-point product truncated
  towards zero. There \<^verbatim>\<open>max_length\<close> is an integer from 1 to 1000, so the product is
  a multiple of one half below 1501 and exact in binary floating point: the result is
  \<open>max_length * 3 div 2\<close>.
\<close>

definition infer_mysql_type :: "(pystr \<rightharpoonup> sqltype) \<Rightarrow> series \<Rightarrow> pystr \<Rightarrow> sqltype" where
  "infer_mysql_type column_types_mapping series column_name =
     (case column_types_mapping column_name of
        Some declared \<Rightarrow> declared
      | None \<Rightarrow>
          (case series of
             IntSeries xs \<Rightarrow>
               (let max_val = (if len series > 0
                               then (case series_max (map Some xs) of Some m \<Rightarrow> m | None \<Rightarrow> 0)
                               else 0)
                in if max_val < 127 then SMALLINT
                   else if max_val < 32767 then INTEGER
                   else BIGINT)
           | FloatSeries _ \<Rightarrow> DECIMAL 15 4
           | BoolSeries _ \<Rightarrow> BOOLEAN
           | DatetimeSeries _ \<Rightarrow> DATETIME
           | ObjectSeries cells \<Rightarrow>
               (let max_length = (case series_max (str_len cells) of
                                    None \<Rightarrow> 255
                                  | Some n \<Rightarrow> if n = 0 then 255 else n)
                in if max_length > 5000 then TEXT
                   else if max_length > 1000 then String 5000
                   else String (min (max_length * 3 div 2) 1000))))"

section \<open>Python string methods\<close>

text \<open>
  The exceptions the modelled code can raise: \<^verbatim>\<open>IndexError\<close> (indexing an empty
  string), \<^verbatim>\<open>AttributeError\<close> (a method or attribute the object does not have), and
  \<open>OtherError\<close> for whatever pandas, SQLAlchemy or the MySQL driver raise.
\<close>

datatype error = IndexError | AttributeError | OtherError string

text \<open>
  \<^verbatim>\<open>str.strip\<close>, \<^verbatim>\<open>str.isalnum\<close>, \<^verbatim>\<open>str.isdigit\<close> and \<^verbatim>\<open>str.lower\<close> follow
  Python's Unicode tables. On ASCII they are written out here; what they do beyond ASCII
  is a parameter of the model, \<open>unicode_tables\<close>: whether a non-ASCII code point is
  whitespace, alphanumeric or a digit, and the lower-case form of a string that has a
  non-ASCII code point (a function of the whole string, since Python's case mapping
  can change its length and depends on context). A theorem stated for every
  \<open>unicode_tables\<close> holds for Python's tables, whatever they are.
\<close>

record unicode_tables =
  uni_isspace :: "codepoint \<Rightarrow> bool"
  uni_isalnum :: "codepoint \<Rightarrow> bool"
  uni_isdigit :: "codepoint \<Rightarrow> bool"
  uni_lower :: "pystr \<Rightarrow> pystr"

text \<open>ASCII whitespace is TAB, LF, VT, FF, CR, the separators 28 to 31, and the space.\<close>

definition str_isspace :: "unicode_tables \<Rightarrow> codepoint \<Rightarrow> bool" where
  "str_isspace U c =
     (if c < 128 then (9 \<le> c \<and> c \<le> 13) \<or> (28 \<le> c \<and> c \<le> 32) else uni_isspace U c)"

definition str_isalnum :: "unicode_tables \<Rightarrow> codepoint \<Rightarrow> bool" where
  "str_isalnum U c =
     (if c < 128 then (48 \<le> c \<and> c \<le> 57) \<or> (65 \<le> c \<and> c \<le> 90) \<or> (97 \<le> c \<and> c \<le> 122)
      else uni_isalnum U c)"

definition str_isdigit :: "unicode_tables \<Rightarrow> codepoint \<Rightarrow> bool" where
  "str_isdigit U c = (if c < 128 then 48 \<le> c \<and> c \<le> 57 else uni_isdigit U c)"

definition str_lower :: "unicode_tables \<Rightarrow> pystr \<Rightarrow> pystr" where
  "str_lower U s =
     (if list_all (\<lambda>c. c < 128) s then map (\<lambda>c. if 65 \<le> c \<and> c \<le> 90 then c + 32 else c) s
      else uni_lower U s)"

text \<open>\<^verbatim>\<open>s.strip()\<close> removes the whitespace at both ends.\<close>

definition str_strip :: "unicode_tables \<Rightarrow> pystr \<Rightarrow> pystr" where
  "str_strip U s = rev (dropWhile (str_isspace U) (rev (dropWhile (str_isspace U) s)))"

text \<open>\<^verbatim>\<open>s.replace(old, new)\<close> for one-character \<^verbatim>\<open>old\<close> and \<^verbatim>\<open>new\<close>.\<close>

definition str_replace :: "char \<Rightarrow> char \<Rightarrow> pystr \<Rightarrow> pystr" where
  "str_replace old new s = map (\<lambda>c. if c = of_char old then of_char new else c) s"

section \<open>Table names\<close>

text \<open>
  \<^verbatim>\<open>clean_table_name\<close>, statement by statement. \<^verbatim>\<open>table_name[0]\<close> raises
  \<^verbatim>\<open>IndexError\<close> on the empty string; \<^verbatim>\<open>table_name[:64]\<close> keeps the first 64 code
  points.
\<close>

definition clean_table_name :: "unicode_tables \<Rightarrow> pystr \<Rightarrow> error + pystr" where
  "clean_table_name U sheet_name =
     (let table_name = str_strip U sheet_name;
          table_name = str_replace CHR '' '' CHR ''_'' table_name;
          table_name = str_replace CHR ''-'' CHR ''_'' table_name;
          table_name = map (\<lambda>c. if str_isalnum U c \<or> c = of_char CHR ''_'' then c
                                 else of_char CHR ''_'') table_name
      in case table_name of
           [] \<Rightarrow> Inl IndexError
         | c # _ \<Rightarrow>
             (let table_name = (if str_isdigit U c then ascii ''table_'' @ table_name
                                else table_name);
                  table_name = str_lower U table_name
              in Inr (take 64 table_name)))"

section \<open>Sheets, the destination and the migration\<close>

text \<open>
  A \<^verbatim>\<open>DataFrame\<close>: its number of rows and its columns in order, each a label with its
  series (\<^verbatim>\<open>df.shape\<close> is \<open>(nrows df, length (columns df))\<close>). A label read from a
  header cell is a string, or something else (a number, a date), on which the string
  methods do not exist.
\<close>

datatype label = StrLabel pystr | NonStrLabel

record 'l frame =
  nrows :: nat
  columns :: "('l \<times> series) list"

text \<open>
  The workbook as \<^verbatim>\<open>pd.ExcelFile\<close> and \<^verbatim>\<open>pd.read_excel\<close> present it: the sheet names
  in order, and for a sheet name either the frame read or the exception raised.
\<close>

record excel_file =
  sheet_names :: "pystr list"
  read_excel :: "pystr \<Rightarrow> error + label frame"

text \<open>
  \<^verbatim>\<open>dtype_dict\<close> is a Python dict: keys in insertion order, a repeated key overwritten
  in place, which is \<open>AList.update\<close>. The destination database maps a table name to
  what was written. \<^verbatim>\<open>df.to_sql(name, con=self.engine, if_exists='replace', ...)\<close> runs
  in pandas, SQLAlchemy and MySQL: the engine is a parameter, a function that, from the
  table name, the frame, the types and the database, gives the exception raised (if any)
  and the database afterwards (rows written before a failure may remain).
\<close>

type_synonym dtype_dict = "(pystr \<times> sqltype) list"
type_synonym database = "pystr \<rightharpoonup> (pystr frame \<times> dtype_dict)"
type_synonym sql_engine =
  "pystr \<Rightarrow> pystr frame \<Rightarrow> dtype_dict \<Rightarrow> database \<Rightarrow> error option \<times> database"

text \<open>
  The statistics dict of \<^verbatim>\<open>migrate_all\<close>. Its time stamps (\<^verbatim>\<open>start_time\<close>,
  \<^verbatim>\<open>end_time\<close>, \<^verbatim>\<open>duration\<close>) are left out; so is everything printed.
\<close>

record stats =
  total_sheets :: nat
  successful :: nat
  failed :: nat
  total_rows :: nat

text \<open>
  The new column names of \<^verbatim>\<open>migrate_sheet_to_table\<close>,
  \<^verbatim>\<open>[col.strip().replace(' ', '_').replace('-', '_') for col in df.columns]\<close>:
  a label that is not a string has no \<^verbatim>\<open>strip\<close>.
\<close>

fun clean_column_names :: "unicode_tables \<Rightarrow> label list \<Rightarrow> error + pystr list" where
  "clean_column_names U [] = Inr []"
| "clean_column_names U (NonStrLabel # cols) = Inl AttributeError"
| "clean_column_names U (StrLabel col # cols) =
     (case clean_column_names U cols of
        Inl e \<Rightarrow> Inl e
      | Inr names \<Rightarrow>
          Inr (str_replace CHR ''-'' CHR ''_'' (str_replace CHR '' '' CHR ''_'' (str_strip U col))
               # names))"

text \<open>
  \<^verbatim>\<open>df[column]\<close> is the column's series when one column has that name, and a frame of
  all of them when several do.
\<close>

datatype selection = Column series | SubFrame

definition getitem :: "pystr frame \<Rightarrow> pystr \<Rightarrow> selection" where
  "getitem df column =
     (case filter (\<lambda>(name, s). name = column) (columns df) of
        [(name, s)] \<Rightarrow> Column s
      | _ \<Rightarrow> SubFrame)"

text \<open>
  \<^verbatim>\<open>create_dtype_dict\<close>: the loop over \<^verbatim>\<open>df.columns\<close>. Called on a frame instead of
  a series, \<^verbatim>\<open>infer_mysql_type\<close> still returns a declared type, and otherwise fails at
  \<^verbatim>\<open>series.dtype\<close>, which a frame does not have.
\<close>

fun dtype_loop ::
  "(pystr \<rightharpoonup> sqltype) \<Rightarrow> pystr frame \<Rightarrow> pystr list \<Rightarrow> dtype_dict \<Rightarrow> error + dtype_dict" where
  "dtype_loop column_types_mapping df [] dtype_dict = Inr dtype_dict"
| "dtype_loop column_types_mapping df (column # rest) dtype_dict =
     (case getitem df column of
        Column s \<Rightarrow>
          dtype_loop column_types_mapping df rest
            (AList.update column (infer_mysql_type column_types_mapping s column) dtype_dict)
      | SubFrame \<Rightarrow>
          (case column_types_mapping column of
             Some declared \<Rightarrow>
               dtype_loop column_types_mapping df rest (AList.update column declared dtype_dict)
           | None \<Rightarrow> Inl AttributeError))"

definition create_dtype_dict :: "(pystr \<rightharpoonup> sqltype) \<Rightarrow> pystr frame \<Rightarrow> error + dtype_dict" where
  "create_dtype_dict column_types_mapping df =
     dtype_loop column_types_mapping df (map fst (columns df)) []"

text \<open>
  \<^verbatim>\<open>migrate_sheet_to_table\<close> is a \<^verbatim>\<open>try\<close> block with a handler.
  \<open>migrate_sheet_body\<close> is the block: \<open>Inr\<close> of the value it returns, or \<open>Inl\<close> of
  the exception that leaves it, with the database as it is then.
  \<open>migrate_sheet_to_table\<close> adds the handler, \<^verbatim>\<open>except Exception: return False\<close>.
\<close>

definition migrate_sheet_body ::
  "unicode_tables \<Rightarrow> (pystr \<rightharpoonup> sqltype) \<Rightarrow> sql_engine \<Rightarrow> excel_file \<Rightarrow> pystr \<Rightarrow> database
   \<Rightarrow> (error + bool) \<times> database" where
  "migrate_sheet_body U column_types_mapping engine excel_file sheet_name db =
     (case read_excel excel_file sheet_name of
        Inl e \<Rightarrow> (Inl e, db)
      | Inr df \<Rightarrow>
          (case clean_table_name U sheet_name of
             Inl e \<Rightarrow> (Inl e, db)
           | Inr table_name \<Rightarrow>
               (let rows = nrows df; cols = length (columns df)
                in if rows = 0 then (Inr False, db)
                   else
                     (case clean_column_names U (map fst (columns df)) of
                        Inl e \<Rightarrow> (Inl e, db)
                      | Inr names \<Rightarrow>
                          (let df = \<lparr>nrows = nrows df,
                                     columns = zip names (map snd (columns df))\<rparr>
                           in case create_dtype_dict column_types_mapping df of
                                Inl e \<Rightarrow> (Inl e, db)
                              | Inr dtype_dict \<Rightarrow>
                                  (case engine table_name df dtype_dict db of
                                     (Some e, db') \<Rightarrow> (Inl e, db')
                                   | (None, db') \<Rightarrow> (Inr True, db')))))))"

definition migrate_sheet_to_table ::
  "unicode_tables \<Rightarrow> (pystr \<rightharpoonup> sqltype) \<Rightarrow> sql_engine \<Rightarrow> excel_file \<Rightarrow> pystr \<Rightarrow> database
   \<Rightarrow> bool \<times> database" where
  "migrate_sheet_to_table U column_types_mapping engine excel_file sheet_name db =
     (case migrate_sheet_body U column_types_mapping engine excel_file sheet_name db of
        (Inr success, db') \<Rightarrow> (success, db')
      | (Inl e, db') \<Rightarrow> (False, db'))"

text \<open>The \<^verbatim>\<open>for sheet_name in sheet_names\<close> loop of \<^verbatim>\<open>migrate_all\<close>.\<close>

fun migrate_sheets ::
  "unicode_tables \<Rightarrow> (pystr \<rightharpoonup> sqltype) \<Rightarrow> sql_engine \<Rightarrow> excel_file \<Rightarrow> pystr list \<Rightarrow> stats
   \<Rightarrow> database \<Rightarrow> stats \<times> database" where
  "migrate_sheets U column_types_mapping engine excel_file [] stats db = (stats, db)"
| "migrate_sheets U column_types_mapping engine excel_file (sheet_name # rest) stats db =
     (case migrate_sheet_to_table U column_types_mapping engine excel_file sheet_name db of
        (success, db') \<Rightarrow>
          migrate_sheets U column_types_mapping engine excel_file rest
            (if success then stats\<lparr>successful := successful stats + 1\<rparr>
             else stats\<lparr>failed := failed stats + 1\<rparr>)
            db')"

text \<open>
  \<^verbatim>\<open>migrate_all\<close>. \<open>mysql\<close> is what \<^verbatim>\<open>connect_mysql\<close> meets: the engine, or the
  exception on which it returns \<^verbatim>\<open>False\<close>. \<open>excel\<close> is what
  \<^verbatim>\<open>read_excel_sheets\<close> meets: the workbook, or the exception on which it returns
  \<^verbatim>\<open>(None, [])\<close>.
\<close>

definition migrate_all ::
  "unicode_tables \<Rightarrow> (pystr \<rightharpoonup> sqltype) \<Rightarrow> error + sql_engine \<Rightarrow> error + excel_file \<Rightarrow> database
   \<Rightarrow> stats \<times> database" where
  "migrate_all U column_types_mapping mysql excel db =
     (let stats = \<lparr>total_sheets = 0, successful = 0, failed = 0, total_rows = 0\<rparr>
      in case mysql of
           Inl e \<Rightarrow> (stats, db)
         | Inr engine \<Rightarrow>
             (case excel of
                Inl e \<Rightarrow> (stats, db)
              | Inr excel_file \<Rightarrow>
                  (let stats = stats\<lparr>total_sheets := length (sheet_names excel_file)\<rparr>
                   in migrate_sheets U column_types_mapping engine excel_file
                        (sheet_names excel_file) stats db)))"

section \<open>Notions used in the statements\<close>

text \<open>
  What a cell of a float column holds, read from the 64 bits of the IEEE double: the
  sign bit, 11 bits of exponent and 52 bits of fraction. \<open>float_isnan\<close> is the
  missing value \<^verbatim>\<open>NaN\<close>; \<open>float_integer\<close> is the integer that the cell holds when
  its value is finite and integral (\<open>None\<close> for \<^verbatim>\<open>NaN\<close>, the infinities and
  values with a fractional part).
\<close>

definition float_exponent :: "64 word \<Rightarrow> nat" where
  "float_exponent w = (unat w div 2 ^ 52) mod 2048"

definition float_fraction :: "64 word \<Rightarrow> nat" where
  "float_fraction w = unat w mod 2 ^ 52"

definition float_isnan :: "64 word \<Rightarrow> bool" where
  "float_isnan w = (float_exponent w = 2047 \<and> float_fraction w \<noteq> 0)"

definition float_integer :: "64 word \<Rightarrow> int option" where
  "float_integer w =
     (let e = float_exponent w; f = float_fraction w;
          sign = (if unat w < 2 ^ 63 then 1 else - 1 :: int)
      in if e = 2047 then None
         else if e = 0 then (if f = 0 then Some 0 else None)
         else if 1075 \<le> e then Some (sign * int ((2 ^ 52 + f) * 2 ^ (e - 1075)))
         else if (2 ^ 52 + f) mod 2 ^ (1075 - e) = 0
              then Some (sign * int ((2 ^ 52 + f) div 2 ^ (1075 - e)))
              else None)"

text \<open>The lengths of the values of a text column that are not missing.\<close>

definition present_lengths :: "pystr option list \<Rightarrow> nat set" where
  "present_lengths cells = {length s |s. Some s \<in> set cells}"

text \<open>
  The length \<open>L\<close> that decides the type of a text column: the greatest of these
  lengths, and 255 when there is none or when it is 0.
\<close>

definition text_length :: "pystr option list \<Rightarrow> nat" where
  "text_length cells =
     (if present_lengths cells = {} \<or> Max (present_lengths cells) = 0 then 255
      else Max (present_lengths cells))"

text \<open>
  The text rule in the specification's words, for the longest length \<open>L\<close>: Text above
  5000, VarChar(5000) above 1000, and otherwise VarChar(min(round(L \<times> 1.5), 1000)).
\<close>

definition spec_text_type :: "nat \<Rightarrow> sqltype" where
  "spec_text_type L =
     (if L > 5000 then TEXT
      else if 1000 < L \<and> L \<le> 5000 then String 5000
      else String (min (nat (round (real L * 1.5))) 1000))"

text \<open>
  The characters \<^verbatim>\<open>[a-z0-9_]\<close>, the characters \<^verbatim>\<open>[a-zA-Z0-9_]\<close>, and a string that
  begins with one of \<^verbatim>\<open>0\<close> to \<^verbatim>\<open>9\<close>.
\<close>

definition identifier_char :: "codepoint \<Rightarrow> bool" where
  "identifier_char c = ((97 \<le> c \<and> c \<le> 122) \<or> (48 \<le> c \<and> c \<le> 57) \<or> c = 95)"

definition word_char :: "codepoint \<Rightarrow> bool" where
  "word_char c =
     ((48 \<le> c \<and> c \<le> 57) \<or> (65 \<le> c \<and> c \<le> 90) \<or> (97 \<le> c \<and> c \<le> 122) \<or> c = 95)"

definition begins_with_digit :: "pystr \<Rightarrow> bool" where
  "begins_with_digit t = (case t of [] \<Rightarrow> False | c # _ \<Rightarrow> 48 \<le> c \<and> c \<le> 57)"

text \<open>
  ASCII lower-casing of one character, and the stripped label with every character that
  is not alphanumeric (for \<^verbatim>\<open>str.isalnum\<close>) replaced by an underscore.
\<close>

definition ascii_lower :: "codepoint \<Rightarrow> codepoint" where
  "ascii_lower c = (if 65 \<le> c \<and> c \<le> 90 then c + 32 else c)"

definition kept_characters :: "unicode_tables \<Rightarrow> pystr \<Rightarrow> pystr" where
  "kept_characters U sheet_name =
     map (\<lambda>c. if str_isalnum U c then c else of_char CHR ''_'') (str_strip U sheet_name)"

text \<open>What the three replacements of \<open>clean_table_name\<close> make of one character.\<close>

definition sanitize_char :: "unicode_tables \<Rightarrow> codepoint \<Rightarrow> codepoint" where
  "sanitize_char U c =
     (let c1 = (if c = 32 then 95 else c); c2 = (if c1 = 45 then 95 else c1)
      in if str_isalnum U c2 \<or> c2 = 95 then c2 else 95)"

text \<open>
  The outcome of each sheet in turn: the sheet is migrated from the database that the
  sheets before it left, whether they succeeded or not.
\<close>

fun sheet_results ::
  "unicode_tables \<Rightarrow> (pystr \<rightharpoonup> sqltype) \<Rightarrow> sql_engine \<Rightarrow> excel_file \<Rightarrow> pystr list \<Rightarrow> database
   \<Rightarrow> bool list" where
  "sheet_results U column_types_mapping engine excel_file [] db = []"
| "sheet_results U column_types_mapping engine excel_file (sheet_name # rest) db =
     (case migrate_sheet_to_table U column_types_mapping engine excel_file sheet_name db of
        (success, db') \<Rightarrow>
          success # sheet_results U column_types_mapping engine excel_file rest db')"

text \<open>
  The load of the workbook in the specification's terms. \<open>sheet_load\<close> is what a
  sheet gives to write: the sanitized table name, the rows under the cleaned column
  names and the schema; or nothing, when the sheet cannot be read, has no rows, or its
  names or schema cannot be built. \<open>load_sheets\<close> takes the sheets in order: a sheet
  with nothing to write fails and leaves the destination as it is; every other sheet
  is written by the engine to the destination as the sheets before it left it, and
  succeeds when the engine raises nothing. It gives the outcomes in order and the
  destination at the end.
\<close>

definition sheet_load ::
  "unicode_tables \<Rightarrow> (pystr \<rightharpoonup> sqltype) \<Rightarrow> excel_file \<Rightarrow> pystr
   \<Rightarrow> (pystr \<times> pystr frame \<times> dtype_dict) option" where
  "sheet_load U column_types_mapping excel_file sheet_name =
     (case read_excel excel_file sheet_name of
        Inl e \<Rightarrow> None
      | Inr sheet \<Rightarrow>
          if nrows sheet = 0 then None
          else
            (case (clean_table_name U sheet_name,
                   clean_column_names U (map fst (columns sheet))) of
               (Inr table_name, Inr names) \<Rightarrow>
                 (case create_dtype_dict column_types_mapping
                         \<lparr>nrows = nrows sheet, columns = zip names (map snd (columns sheet))\<rparr> of
                    Inr schema \<Rightarrow>
                      Some (table_name,
                            \<lparr>nrows = nrows sheet, columns = zip names (map snd (columns sheet))\<rparr>,
                            schema)
                  | Inl e \<Rightarrow> None)
             | _ \<Rightarrow> None))"

fun load_sheets ::
  "unicode_tables \<Rightarrow> (pystr \<rightharpoonup> sqltype) \<Rightarrow> sql_engine \<Rightarrow> excel_file \<Rightarrow> pystr list \<Rightarrow> database
   \<Rightarrow> bool list \<times> database" where
  "load_sheets U column_types_mapping engine excel_file [] db = ([], db)"
| "load_sheets U column_types_mapping engine excel_file (sheet_name # rest) db =
     (case sheet_load U column_types_mapping excel_file sheet_name of
        None \<Rightarrow>
          (case load_sheets U column_types_mapping engine excel_file rest db of
             (outcomes, db_end) \<Rightarrow> (False # outcomes, db_end))
      | Some (table_name, rows, schema) \<Rightarrow>
          (case engine table_name rows schema db of
             (failure, db_next) \<Rightarrow>
               (case load_sheets U column_types_mapping engine excel_file rest db_next of
                  (outcomes, db_end) \<Rightarrow> ((failure = None) # outcomes, db_end))))"

section \<open>Example data\<close>

text \<open>
  The entries of Python's Unicode tables at the code points the examples use; every
  other non-ASCII code point is left as it is and belongs to no class here. In Python,
  \<^item> U+00E9 (233, small e with acute) is alphanumeric and is its own lower case;
  \<^item> U+0130 (304, capital I with dot above) is alphanumeric, and its lower case is the
    two code points U+0069 U+0307 (105, 775);
  \<^item> U+0307 (775, combining dot above) is not alphanumeric, not a digit and not
    whitespace.
\<close>

definition tables_fragment :: unicode_tables where
  "tables_fragment =
     \<lparr>uni_isspace = (\<lambda>c. False),
      uni_isalnum = (\<lambda>c. c = 233 \<or> c = 304),
      uni_isdigit = (\<lambda>c. False),
      uni_lower = (\<lambda>s. concat (map (\<lambda>c. if c = 304 then [105, 775]
                                           else if 65 \<le> c \<and> c \<le> 90 then [c + 32]
                                           else [c]) s))\<rparr>"

text \<open>
  An engine that cannot create the table \<open>broken\<close> and writes every other table, and
  a workbook of three sheets with two rows each.
\<close>

definition example_engine :: "pystr \<Rightarrow> sql_engine" where
  "example_engine broken table_name df dtype_dict db =
     (if table_name = broken then (Some (OtherError ''table cannot be created''), db)
      else (None, db(table_name \<mapsto> (df, dtype_dict))))"

definition example_sheet :: "label frame" where
  "example_sheet =
     \<lparr>nrows = 2,
      columns = [(StrLabel (ascii ''Item Name''),
                    ObjectSeries [Some (ascii ''bolt''), Some (ascii ''nut'')]),
                 (StrLabel (ascii ''qty''), IntSeries [40, 200])]\<rparr>"

definition example_book :: excel_file where
  "example_book =
     \<lparr>sheet_names = [ascii ''Sales'', ascii ''Costs'', ascii ''Stock''],
      read_excel = (\<lambda>sheet_name. Inr example_sheet)\<rparr>"

definition example_table :: "pystr frame \<times> dtype_dict" where
  "example_table =
     (\<lparr>nrows = 2,
       columns = [(ascii ''Item_Name'', ObjectSeries [Some (ascii ''bolt''), Some (ascii ''nut'')]),
                  (ascii ''qty'', IntSeries [40, 200])]\<rparr>,
      [(ascii ''Item_Name'', String 6), (ascii ''qty'', INTEGER)])"

text \<open>A workbook whose sheets have a header and no rows; the second sheet's name is a space.\<close>

definition empty_sheet :: "label frame" where
  "empty_sheet = \<lparr>nrows = 0, columns = [(StrLabel (ascii ''id''), ObjectSeries [])]\<rparr>"

definition empty_book :: excel_file where
  "empty_book =
     \<lparr>sheet_names = [ascii ''Empty'', ascii '' ''],
      read_excel = (\<lambda>sheet_name. Inr empty_sheet)\<rparr>"

section \<open>Properties of type inference\<close>

lemma series_max_Some_eq:
  "xs \<noteq> [] \<Longrightarrow> series_max (map Some xs) = Some (Max (set xs))"
proof (induction xs)
  case Nil
  then show ?case by simp
next
  case (Cons x xs)
  show ?case
  proof (cases "xs = []")
    case True
    then show ?thesis by simp
  next
    case False
    with Cons.IH show ?thesis by simp
  qed
qed

text \<open>
  Claim C1, as amended. A column of an integer dtype (a column of integers without a
  missing cell) for which no type is declared gets \<open>SMALLINT\<close> when its maximum is
  below 127, \<open>INTEGER\<close> when the maximum is from 127 to 32766, and \<open>BIGINT\<close> from
  32767 on; the maximum of a column without rows counts as 0. A column of a float
  dtype for which no type is declared gets \<open>DECIMAL 15 4\<close> whatever it holds: the
  integer rule does not reach a column of integral values with a missing cell, which
  pandas holds as floats.
\<close>

theorem infer_mysql_type_integer:
  assumes "column_types_mapping column_name = None"
  shows "infer_mysql_type column_types_mapping (IntSeries xs) column_name =
           (let max_value = (if xs = [] then 0 else Max (set xs))
            in if max_value < 127 then SMALLINT
               else if 127 \<le> max_value \<and> max_value < 32767 then INTEGER
               else BIGINT)
         \<and> infer_mysql_type column_types_mapping (FloatSeries ws) column_name = DECIMAL 15 4"
proof (cases "xs = []")
  case True
  with assms show ?thesis by (simp add: infer_mysql_type_def)
next
  case False
  with assms show ?thesis
    by (simp add: infer_mysql_type_def series_max_Some_eq Let_def not_less
        del: Max_less_iff Max_le_iff Max_gr_iff Max_ge_iff)
qed

text \<open>
  The boundaries: maximum 126, 127, 32766 and 32767, and the column without rows; then
  a float column.
\<close>

theorem infer_mysql_type_integer_witness:
  "infer_mysql_type Map.empty (IntSeries [5, 126, - 3]) (ascii ''qty'') = SMALLINT
   \<and> infer_mysql_type Map.empty (IntSeries [127, 1]) (ascii ''qty'') = INTEGER
   \<and> infer_mysql_type Map.empty (IntSeries [32766]) (ascii ''qty'') = INTEGER
   \<and> infer_mysql_type Map.empty (IntSeries [2, 32767]) (ascii ''qty'') = BIGINT
   \<and> infer_mysql_type Map.empty (IntSeries []) (ascii ''qty'') = SMALLINT
   \<and> infer_mysql_type Map.empty (FloatSeries [0x4014000000000000, 0x7FF8000000000000])
        (ascii ''qty'') = DECIMAL 15 4"
  using infer_mysql_type_integer [of Map.empty "ascii ''qty''" "[5, 126, - 3]" "[]"]
    infer_mysql_type_integer [of Map.empty "ascii ''qty''" "[127, 1]" "[]"]
    infer_mysql_type_integer [of Map.empty "ascii ''qty''" "[32766]" "[]"]
    infer_mysql_type_integer [of Map.empty "ascii ''qty''" "[2, 32767]" "[]"]
    infer_mysql_type_integer [of Map.empty "ascii ''qty''" "[]"
      "[0x4014000000000000, 0x7FF8000000000000]"]
  by simp

lemma float_examples:
  "float_integer 0x4014000000000000 = Some 5"
  "float_integer 0x405F800000000000 = Some 126"
  "float_isnan 0x7FF8000000000000"
  by (simp_all add: float_integer_def float_isnan_def float_exponent_def float_fraction_def)

text \<open>
  Against C1 as stated: the column 5, missing, 126 is a float column (the doubles 5.0,
  \<^verbatim>\<open>NaN\<close> and 126.0). Its present values are integral and their maximum is 126, and
  it gets \<open>DECIMAL 15 4\<close>, not \<open>SMALLINT\<close>. And an integer column with maximum 126
  that is declared \<open>TEXT\<close> gets \<open>TEXT\<close>.
\<close>

theorem infer_mysql_type_integer_counterexample:
  "float_integer 0x4014000000000000 = Some 5
   \<and> float_isnan 0x7FF8000000000000
   \<and> float_integer 0x405F800000000000 = Some 126
   \<and> infer_mysql_type Map.empty
        (FloatSeries [0x4014000000000000, 0x7FF8000000000000, 0x405F800000000000])
        (ascii ''qty'') = DECIMAL 15 4
   \<and> DECIMAL 15 4 \<noteq> SMALLINT
   \<and> infer_mysql_type [ascii ''qty'' \<mapsto> TEXT] (IntSeries [5, 126]) (ascii ''qty'') = TEXT
   \<and> TEXT \<noteq> SMALLINT"
  by (simp add: float_examples infer_mysql_type_def)

text \<open>
  Claim C2. When the override map has an entry for the column's name,
  \<open>infer_mysql_type\<close> returns the declared type as it is, whatever the column holds:
  the result is the same for every series, so the values are not inspected.
\<close>

theorem infer_mysql_type_override:
  assumes "column_types_mapping column_name = Some declared"
  shows "infer_mysql_type column_types_mapping series column_name = declared"
  using assms by (simp add: infer_mysql_type_def)

text \<open>A column declared \<open>SMALLINT\<close> whose values are a text, or the integer 40000.\<close>

theorem infer_mysql_type_override_witness:
  "infer_mysql_type [ascii ''price'' \<mapsto> SMALLINT]
       (ObjectSeries [Some (ascii ''not a number'')]) (ascii ''price'') = SMALLINT
   \<and> infer_mysql_type [ascii ''price'' \<mapsto> SMALLINT]
       (IntSeries [40000]) (ascii ''price'') = SMALLINT"
  using infer_mysql_type_override
      [of "[ascii ''price'' \<mapsto> SMALLINT]" "ascii ''price''" SMALLINT
          "ObjectSeries [Some (ascii ''not a number'')]"]
    infer_mysql_type_override
      [of "[ascii ''price'' \<mapsto> SMALLINT]" "ascii ''price''" SMALLINT "IntSeries [40000]"]
  by simp

lemma present_lengths_Nil: "present_lengths [] = {}"
  by (simp add: present_lengths_def)

lemma present_lengths_None: "present_lengths (None # cells) = present_lengths cells"
  by (simp add: present_lengths_def)

lemma present_lengths_Some:
  "present_lengths (Some s # cells) = insert (length s) (present_lengths cells)"
  by (auto simp add: present_lengths_def)

lemma finite_present_lengths: "finite (present_lengths cells)"
proof (induction cells)
  case Nil
  then show ?case by (simp add: present_lengths_Nil)
next
  case (Cons c cells)
  then show ?case
    by (cases c) (simp_all add: present_lengths_None present_lengths_Some)
qed

lemma series_max_str_len:
  "series_max (str_len cells) =
     (if present_lengths cells = {} then None else Some (Max (present_lengths cells)))"
proof (induction cells)
  case Nil
  then show ?case by (simp add: str_len_def present_lengths_Nil)
next
  case (Cons c cells)
  show ?case
  proof (cases c)
    case None
    with Cons.IH show ?thesis by (simp add: str_len_def present_lengths_None)
  next
    case (Some s)
    with Cons.IH show ?thesis
      by (simp add: str_len_def present_lengths_Some finite_present_lengths)
  qed
qed

text \<open>
  Claim C3, as amended. For a text or mixed column for which no type is declared, let
  \<open>L\<close> be the greatest length among its values that are not missing, and 255 when
  there is none or when it is 0. The column gets \<open>TEXT\<close> when \<open>L > 5000\<close>,
  \<open>String 5000\<close> when \<open>1000 < L \<le> 5000\<close>, and otherwise
  \<open>String (min (L * 3 div 2) 1000)\<close>: one and a half times \<open>L\<close> rounded down, not
  rounded to the nearest integer.
\<close>

theorem infer_mysql_type_text:
  assumes "column_types_mapping column_name = None"
  shows "infer_mysql_type column_types_mapping (ObjectSeries cells) column_name =
           (let L = (if present_lengths cells = {} \<or> Max (present_lengths cells) = 0
                     then 255 else Max (present_lengths cells))
            in if L > 5000 then TEXT
               else if 1000 < L \<and> L \<le> 5000 then String 5000
               else String (min (L * 3 div 2) 1000))"
  using assms
  by (simp add: infer_mysql_type_def series_max_str_len Let_def not_less
      del: Max_less_iff Max_le_iff Max_gr_iff Max_ge_iff)

text \<open>
  Longest value 10, 800, 1500 and 6000 characters; then an empty text, a column with
  missing cells only, and a longest value of 3 characters.
\<close>

theorem infer_mysql_type_text_witness:
  "infer_mysql_type Map.empty (ObjectSeries [Some (replicate 10 97), Some (ascii ''ab'')])
       (ascii ''note'') = String 15
   \<and> infer_mysql_type Map.empty (ObjectSeries [Some (replicate 800 97)]) (ascii ''note'')
       = String 1000
   \<and> infer_mysql_type Map.empty (ObjectSeries [Some (replicate 1500 97)]) (ascii ''note'')
       = String 5000
   \<and> infer_mysql_type Map.empty (ObjectSeries [None, Some (replicate 6000 97)]) (ascii ''note'')
       = TEXT
   \<and> infer_mysql_type Map.empty (ObjectSeries [Some []]) (ascii ''note'') = String 382
   \<and> infer_mysql_type Map.empty (ObjectSeries [None]) (ascii ''note'') = String 382
   \<and> infer_mysql_type Map.empty (ObjectSeries [Some (ascii ''abc'')]) (ascii ''note'')
       = String 4"
  using infer_mysql_type_text
      [of Map.empty "ascii ''note''" "[Some (replicate 10 97), Some (ascii ''ab'')]"]
    infer_mysql_type_text [of Map.empty "ascii ''note''" "[Some (replicate 800 97)]"]
    infer_mysql_type_text [of Map.empty "ascii ''note''" "[Some (replicate 1500 97)]"]
    infer_mysql_type_text [of Map.empty "ascii ''note''" "[None, Some (replicate 6000 97)]"]
    infer_mysql_type_text [of Map.empty "ascii ''note''" "[Some []]"]
    infer_mysql_type_text [of Map.empty "ascii ''note''" "[None]"]
    infer_mysql_type_text [of Map.empty "ascii ''note''" "[Some (ascii ''abc'')]"]
  by (simp add: present_lengths_Nil present_lengths_None present_lengths_Some ascii_def)

text \<open>
  Against C3 as stated: a column whose only value is the one-character text \<^verbatim>\<open>a\<close>
  gets \<open>String 1\<close>, where the rule with \<open>round\<close> gives VarChar(2).
\<close>

theorem infer_mysql_type_text_round_counterexample:
  "infer_mysql_type Map.empty (ObjectSeries [Some (ascii ''a'')]) (ascii ''note'') = String 1
   \<and> spec_text_type (length (ascii ''a'')) = String 2"
  by (simp add: infer_mysql_type_def str_len_def spec_text_type_def ascii_def round_def)

lemma infer_mysql_type_object:
  assumes "column_types_mapping column_name = None"
  shows "infer_mysql_type column_types_mapping (ObjectSeries cells) column_name =
           (if 5000 < text_length cells then TEXT
            else if 1000 < text_length cells then String 5000
            else String (min (text_length cells * 3 div 2) 1000))"
  using assms
  by (simp add: infer_mysql_type_def series_max_str_len text_length_def Let_def
      del: Max_less_iff Max_le_iff Max_gr_iff Max_ge_iff)

lemma text_length_single: "text_length [Some s] = (if length s = 0 then 255 else length s)"
  by (simp add: text_length_def present_lengths_Some present_lengths_Nil)

text \<open>
  Claim C4, as amended. For a column for which no type is declared: a \<open>String\<close>
  (VarChar) that \<open>infer_mysql_type\<close> returns has length at most 1000, or exactly
  5000; it returns \<open>String 5000\<close> exactly for the text columns whose length \<open>L\<close>
  (\<open>text_length\<close>) is from 1001 to 5000; and it returns \<open>TEXT\<close> exactly for the text
  columns whose length \<open>L\<close> is above 5000.
\<close>

theorem infer_mysql_type_varchar_length:
  assumes "column_types_mapping column_name = None"
  shows "(infer_mysql_type column_types_mapping series column_name = String n
            \<longrightarrow> n \<le> 1000 \<or> n = 5000)
         \<and> (infer_mysql_type column_types_mapping series column_name = String 5000
            \<longleftrightarrow> (\<exists>cells. series = ObjectSeries cells
                   \<and> 1000 < text_length cells \<and> text_length cells \<le> 5000))
         \<and> (infer_mysql_type column_types_mapping series column_name = TEXT
            \<longleftrightarrow> (\<exists>cells. series = ObjectSeries cells \<and> 5000 < text_length cells))"
proof (cases series)
  case (ObjectSeries cells)
  show ?thesis
    unfolding ObjectSeries
      infer_mysql_type_object [of column_types_mapping column_name cells, OF assms]
    by auto
next
  case (IntSeries xs)
  with assms show ?thesis by (simp add: infer_mysql_type_def Let_def)
next
  case (FloatSeries ws)
  with assms show ?thesis by (simp add: infer_mysql_type_def)
next
  case (BoolSeries bs)
  with assms show ?thesis by (simp add: infer_mysql_type_def)
next
  case (DatetimeSeries ds)
  with assms show ?thesis by (simp add: infer_mysql_type_def)
qed

text \<open>Longest value 12, 1001, 5000 and 5001 characters.\<close>

theorem infer_mysql_type_varchar_length_witness:
  "infer_mysql_type Map.empty (ObjectSeries [Some (replicate 12 97)]) (ascii ''note'') = String 18
   \<and> (18::nat) \<le> 1000
   \<and> text_length [Some (replicate 1001 97)] = 1001
   \<and> infer_mysql_type Map.empty (ObjectSeries [Some (replicate 1001 97)]) (ascii ''note'')
       = String 5000
   \<and> text_length [Some (replicate 5000 97)] = 5000
   \<and> infer_mysql_type Map.empty (ObjectSeries [Some (replicate 5000 97)]) (ascii ''note'')
       = String 5000
   \<and> text_length [Some (replicate 5001 97)] = 5001
   \<and> infer_mysql_type Map.empty (ObjectSeries [Some (replicate 5001 97)]) (ascii ''note'')
       = TEXT"
  using infer_mysql_type_varchar_length
      [of Map.empty "ascii ''note''" "ObjectSeries [Some (replicate 12 97)]" 18]
    infer_mysql_type_varchar_length
      [of Map.empty "ascii ''note''" "ObjectSeries [Some (replicate 1001 97)]" 5000]
    infer_mysql_type_varchar_length
      [of Map.empty "ascii ''note''" "ObjectSeries [Some (replicate 5000 97)]" 5000]
    infer_mysql_type_varchar_length
      [of Map.empty "ascii ''note''" "ObjectSeries [Some (replicate 5001 97)]" 5000]
  by (simp add: text_length_single infer_mysql_type_def str_len_def)

text \<open>
  Against C4 as stated: a column whose longest value has 1001 characters gets
  \<open>String 5000\<close>, a VarChar longer than 1000, and not \<open>TEXT\<close>.
\<close>

theorem infer_mysql_type_varchar_5000_counterexample:
  "infer_mysql_type Map.empty (ObjectSeries [Some (replicate 1001 120)]) (ascii ''body'')
     = String 5000
   \<and> \<not> (5000::nat) \<le> 1000"
  by (simp add: infer_mysql_type_def str_len_def)

section \<open>Properties of table names\<close>

lemmas sanitizer_defs =
  clean_table_name_def ascii_def str_strip_def str_isspace_def str_replace_def
  str_isalnum_def str_isdigit_def str_lower_def tables_fragment_def

lemma ascii_table_prefix: "ascii ''table_'' = [116, 97, 98, 108, 101, 95]"
  by (simp add: ascii_def)

text \<open>The function in one expression: strip, sanitize each character, guard, lower, cut.\<close>

lemma clean_table_name_eq:
  "clean_table_name U s =
     (case map (sanitize_char U) (str_strip U s) of
        [] \<Rightarrow> Inl IndexError
      | c # cs \<Rightarrow> Inr (take 64 (str_lower U
            (if str_isdigit U c then ascii ''table_'' @ c # cs else c # cs))))"
proof -
  have "map (\<lambda>c. if str_isalnum U c \<or> c = of_char CHR ''_'' then c else of_char CHR ''_'')
          (str_replace CHR ''-'' CHR ''_'' (str_replace CHR '' '' CHR ''_'' t))
        = map (sanitize_char U) t" for t
    by (simp add: str_replace_def sanitize_char_def Let_def)
  then show ?thesis
    unfolding clean_table_name_def Let_def
    by (simp only: split: list.split) auto
qed

lemma str_strip_subset: "set (str_strip U s) \<subseteq> set s"
proof -
  have "set (str_strip U s) \<subseteq> set (dropWhile (str_isspace U) s)"
    unfolding str_strip_def set_rev using set_dropWhileD by fastforce
  also have "\<dots> \<subseteq> set s"
    using set_dropWhileD by fastforce
  finally show ?thesis .
qed

lemma str_strip_Nil_iff: "str_strip U s = [] \<longleftrightarrow> (\<forall>c\<in>set s. str_isspace U c)"
proof
  assume "str_strip U s = []"
  then have all: "\<forall>c\<in>set (dropWhile (str_isspace U) s). str_isspace U c"
    by (simp add: str_strip_def dropWhile_eq_Nil_conv)
  have "dropWhile (str_isspace U) s = []"
  proof (rule ccontr)
    assume ne: "dropWhile (str_isspace U) s \<noteq> []"
    then have "\<not> str_isspace U (hd (dropWhile (str_isspace U) s))"
      by (rule hd_dropWhile)
    moreover from ne have "hd (dropWhile (str_isspace U) s) \<in> set (dropWhile (str_isspace U) s)"
      by simp
    ultimately show False using all by blast
  qed
  then show "\<forall>c\<in>set s. str_isspace U c"
    by (simp add: dropWhile_eq_Nil_conv)
next
  assume "\<forall>c\<in>set s. str_isspace U c"
  then have "dropWhile (str_isspace U) s = []"
    by (simp add: dropWhile_eq_Nil_conv)
  then show "str_strip U s = []"
    unfolding str_strip_def by (simp only: rev.simps dropWhile.simps)
qed

lemma str_strip_id:
  assumes "\<forall>c\<in>set t. \<not> str_isspace U c"
  shows "str_strip U t = t"
proof (cases t)
  case Nil
  then show ?thesis by (simp add: str_strip_def)
next
  case (Cons c cs)
  with assms have 1: "dropWhile (str_isspace U) t = t"
    by simp
  from Cons have "rev t \<noteq> []" by simp
  then obtain d ds where r: "rev t = d # ds"
    by (cases "rev t") auto
  then have "d \<in> set t"
    by (metis list.set_intros(1) set_rev)
  with assms have "\<not> str_isspace U d" by blast
  with r have "dropWhile (str_isspace U) (rev t) = rev t" by simp
  with 1 show ?thesis by (simp add: str_strip_def)
qed

lemma clean_table_name_Inl:
  assumes "\<forall>c\<in>set s. str_isspace U c"
  shows "clean_table_name U s = Inl IndexError"
proof -
  from assms have "str_strip U s = []" by (simp add: str_strip_Nil_iff)
  then show ?thesis by (simp add: clean_table_name_eq)
qed

lemma clean_table_name_Inr:
  assumes "\<exists>c\<in>set s. \<not> str_isspace U c"
  shows "\<exists>t. clean_table_name U s = Inr t"
proof (cases "str_strip U s")
  case Nil
  with assms show ?thesis by (simp add: str_strip_Nil_iff)
next
  case (Cons c cs)
  then show ?thesis by (simp add: clean_table_name_eq)
qed

lemma sanitize_char_ascii: "c < 128 \<Longrightarrow> word_char (sanitize_char U c)"
  by (simp add: sanitize_char_def word_char_def str_isalnum_def Let_def)

lemma word_char_ascii: "word_char c \<Longrightarrow> c < 128"
  by (auto simp add: word_char_def)

lemma str_lower_word:
  assumes "\<forall>c\<in>set v. word_char c"
  shows "str_lower U v = map (\<lambda>c. if 65 \<le> c \<and> c \<le> 90 then c + 32 else c) v"
proof -
  from assms have "list_all (\<lambda>c. c < 128) v"
    by (simp add: list_all_iff word_char_ascii)
  then show ?thesis by (simp add: str_lower_def)
qed

lemma lower_word_char:
  "word_char c \<Longrightarrow> identifier_char (if 65 \<le> c \<and> c \<le> 90 then c + 32 else c)"
  by (auto simp add: word_char_def identifier_char_def)

lemma identifier_char_facts:
  assumes "identifier_char c"
  shows "c < 128" and "\<not> str_isspace U c" and "sanitize_char U c = c"
    and "(if 65 \<le> c \<and> c \<le> 90 then c + 32 else c) = c" and "word_char c"
  using assms
  by (auto simp add: identifier_char_def str_isspace_def sanitize_char_def str_isalnum_def
      word_char_def Let_def)

lemma sanitize_char_eq:
  "sanitize_char U c = (if str_isalnum U c then c else of_char CHR ''_'')"
  by (simp add: sanitize_char_def str_isalnum_def Let_def)

lemma kept_characters_eq: "kept_characters U s = map (sanitize_char U) (str_strip U s)"
  by (simp add: kept_characters_def sanitize_char_eq)

lemma sanitize_char_plain:
  "c < 128 \<or> \<not> str_isalnum U c \<Longrightarrow> word_char (sanitize_char U c)"
  by (auto simp add: sanitize_char_def word_char_def str_isalnum_def Let_def)

lemma str_lower_ascii:
  assumes "\<forall>c\<in>set v. word_char c"
  shows "str_lower U v = map ascii_lower v"
  using str_lower_word [OF assms] by (simp add: ascii_lower_def [abs_def])

text \<open>The name in terms of the characters kept, for every label.\<close>

lemma clean_table_name_kept:
  assumes "clean_table_name U s = Inr t"
  shows "kept_characters U s \<noteq> []
         \<and> t = take 64 (str_lower U
                 (if str_isdigit U (hd (kept_characters U s))
                  then ascii ''table_'' @ kept_characters U s else kept_characters U s))"
  using assms
  by (auto simp add: clean_table_name_eq kept_characters_eq split: list.splits)

text \<open>The name made of a label whose non-ASCII characters are not alphanumeric.\<close>

lemma clean_table_name_plain:
  assumes "\<forall>c\<in>set s. c < 128 \<or> \<not> str_isalnum U c" and "clean_table_name U s = Inr t"
  shows "t = take 64 (map ascii_lower
                 (if str_isdigit U (hd (kept_characters U s))
                  then ascii ''table_'' @ kept_characters U s else kept_characters U s))
         \<and> t \<noteq> [] \<and> (\<forall>c\<in>set t. identifier_char c) \<and> \<not> begins_with_digit t \<and> length t \<le> 64
         \<and> (begins_with_digit (str_strip U s) \<longrightarrow> take 6 t = ascii ''table_'')"
proof -
  define u where "u = kept_characters U s"
  define v where "v = (if str_isdigit U (hd u) then ascii ''table_'' @ u else u)"
  from clean_table_name_kept [OF assms(2)]
  have u_ne: "u \<noteq> []" and t0: "t = take 64 (str_lower U v)"
    by (simp_all add: u_def v_def)
  have plain: "\<forall>x\<in>set (str_strip U s). x < 128 \<or> \<not> str_isalnum U x"
    using assms(1) str_strip_subset [of U s] by blast
  have u_word: "\<forall>x\<in>set u. word_char x"
    using plain by (auto simp add: u_def kept_characters_eq sanitize_char_plain)
  have pre_word: "\<forall>x\<in>set (ascii ''table_''). word_char x"
    by (simp add: ascii_table_prefix word_char_def)
  have v_word: "\<forall>x\<in>set v. word_char x"
    using u_word pre_word by (auto simp add: v_def)
  have t: "t = take 64 (map ascii_lower v)"
    using t0 by (simp only: str_lower_ascii [OF v_word])
  have v_ne: "v \<noteq> []" using u_ne by (simp add: v_def)
  have ident: "\<forall>x\<in>set t. identifier_char x"
  proof
    fix x assume "x \<in> set t"
    then have "x \<in> set (map ascii_lower v)" unfolding t by (rule in_set_takeD)
    then obtain y where y: "y \<in> set v" "x = ascii_lower y" by auto
    with v_word have "word_char y" by blast
    then have "identifier_char (ascii_lower y)"
      unfolding ascii_lower_def by (rule lower_word_char)
    with y show "identifier_char x" by simp
  qed
  have hd_t: "hd t = ascii_lower (hd v)"
    using v_ne by (cases v) (simp_all add: t)
  have t_ne: "t \<noteq> []" using v_ne by (cases v) (simp_all add: t)
  have hd_u: "word_char (hd u)" using u_word u_ne by simp
  have no_digit: "\<not> (48 \<le> ascii_lower (hd v) \<and> ascii_lower (hd v) \<le> 57)"
  proof (cases "str_isdigit U (hd u)")
    case True
    then show ?thesis by (simp add: v_def ascii_table_prefix ascii_lower_def)
  next
    case False
    then have "hd v = hd u" by (simp add: v_def)
    with False word_char_ascii [OF hd_u] show ?thesis
      by (auto simp add: str_isdigit_def ascii_lower_def)
  qed
  have nd: "\<not> begins_with_digit t"
    using t_ne hd_t no_digit by (cases t) (simp_all add: begins_with_digit_def)
  have len: "length t \<le> 64" by (simp add: t)
  have pre: "take 6 t = ascii ''table_''" if "begins_with_digit (str_strip U s)"
  proof -
    from that obtain c cs where st: "str_strip U s = c # cs" and d: "48 \<le> c \<and> c \<le> 57"
      by (cases "str_strip U s") (simp_all add: begins_with_digit_def)
    then have "hd u = c"
      by (simp add: u_def kept_characters_def str_isalnum_def)
    with d have "str_isdigit U (hd u)" by (simp add: str_isdigit_def)
    then have "v = ascii ''table_'' @ u" by (simp add: v_def)
    then show ?thesis by (simp add: t ascii_table_prefix ascii_lower_def take_map)
  qed
  from t t_ne ident nd len pre show ?thesis unfolding v_def u_def by blast
qed

lemma clean_table_name_length:
  assumes "clean_table_name U s = Inr t"
  shows "length t \<le> 64"
  using assms by (auto simp add: clean_table_name_eq split: list.splits)

text \<open>A name of at most 64 characters of \<^verbatim>\<open>[a-z0-9_]\<close> that begins with no digit is kept.\<close>

lemma clean_table_name_fixed:
  assumes "t \<noteq> []" and "\<forall>c\<in>set t. identifier_char c" and "\<not> begins_with_digit t"
    and "length t \<le> 64"
  shows "clean_table_name U t = Inr t"
proof -
  from assms(1) obtain c cs where t: "t = c # cs" by (cases t) auto
  have "str_strip U t = t"
    using assms(2) by (intro str_strip_id) (simp add: identifier_char_facts(2))
  moreover have san: "map (sanitize_char U) t = t"
    using assms(2) by (simp add: map_idI identifier_char_facts(3))
  moreover have "\<not> str_isdigit U c"
    using assms(2,3) identifier_char_facts(1) [of c]
    by (simp add: t begins_with_digit_def str_isdigit_def)
  moreover have "str_lower U t = t"
  proof -
    have "\<forall>x\<in>set t. word_char x" using assms(2) by (simp add: identifier_char_facts(5))
    then have "str_lower U t = map (\<lambda>c. if 65 \<le> c \<and> c \<le> 90 then c + 32 else c) t"
      by (rule str_lower_word)
    also have "\<dots> = t"
      using assms(2) by (intro map_idI) (simp add: identifier_char_facts(4))
    finally show ?thesis .
  qed
  ultimately show ?thesis
    using assms(4) by (simp add: clean_table_name_eq t)
qed

text \<open>
  Claim C5, as amended. For every sheet label for which \<open>clean_table_name\<close> returns
  a name: the name is the first 64 characters of the lower-cased form of
  \<open>kept_characters\<close> (the stripped label in which every character that is not
  alphanumeric for \<^verbatim>\<open>str.isalnum\<close>, so spaces, hyphens and other symbols, is
  replaced by an underscore, while letters and digits of every script are kept), with
  \<^verbatim>\<open>table_\<close> put in front when the first of these characters is a digit for
  \<^verbatim>\<open>str.isdigit\<close>; so it has at most 64 characters. When no non-ASCII character
  of the label is alphanumeric (every ASCII label; labels with symbols such as the
  section sign or the em dash), the lower-casing is the ASCII one, the name is not
  empty, consists of characters of \<^verbatim>\<open>[a-z0-9_]\<close> only and does not begin with a
  digit, and a label that begins with a digit (after stripping) gives a name that begins
  with \<^verbatim>\<open>table_\<close>.
\<close>

theorem clean_table_name_identifier:
  assumes "clean_table_name U sheet_name = Inr t"
  shows "let kept = kept_characters U sheet_name;
             guarded = (if str_isdigit U (hd kept) then ascii ''table_'' @ kept else kept)
         in kept \<noteq> [] \<and> t = take 64 (str_lower U guarded) \<and> length t \<le> 64
            \<and> ((\<forall>c\<in>set sheet_name. c < 128 \<or> \<not> str_isalnum U c) \<longrightarrow>
                 t = take 64 (map ascii_lower guarded) \<and> t \<noteq> []
                 \<and> (\<forall>c\<in>set t. identifier_char c) \<and> \<not> begins_with_digit t
                 \<and> (begins_with_digit (str_strip U sheet_name) \<longrightarrow> take 6 t = ascii ''table_''))"
  using clean_table_name_kept [OF assms] clean_table_name_length [OF assms]
    clean_table_name_plain [OF _ assms]
  unfolding Let_def by blast

text \<open>
  The label \<^verbatim>\<open>2024 \<close>, section sign, \<^verbatim>\<open>5 \<close>, em dash, \<^verbatim>\<open> Q1\<close> (U+00A7 is 167,
  U+2014 is 8212; neither is alphanumeric in Python).
\<close>

lemma section_label:
  "clean_table_name tables_fragment [50, 48, 50, 52, 32, 167, 53, 32, 8212, 32, 81, 49]
     = Inr (ascii ''table_2024__5___q1'')"
  by (simp add: sanitizer_defs)

theorem clean_table_name_identifier_witness:
  "clean_table_name tables_fragment [50, 48, 50, 52, 32, 167, 53, 32, 8212, 32, 81, 49]
     = Inr (ascii ''table_2024__5___q1'')
   \<and> kept_characters tables_fragment [50, 48, 50, 52, 32, 167, 53, 32, 8212, 32, 81, 49]
     = ascii ''2024__5___Q1''
   \<and> length (ascii ''table_2024__5___q1'') \<le> 64
   \<and> list_all identifier_char (ascii ''table_2024__5___q1'')
   \<and> \<not> begins_with_digit (ascii ''table_2024__5___q1'')
   \<and> take 6 (ascii ''table_2024__5___q1'') = ascii ''table_''"
proof -
  let ?s = "[50, 48, 50, 52, 32, 167, 53, 32, 8212, 32, 81, 49] :: pystr"
  have a: "\<forall>c\<in>set ?s. c < 128 \<or> \<not> str_isalnum tables_fragment c"
    by (simp add: str_isalnum_def tables_fragment_def)
  have d: "begins_with_digit (str_strip tables_fragment ?s)"
    by (simp add: begins_with_digit_def sanitizer_defs)
  have k: "kept_characters tables_fragment ?s = ascii ''2024__5___Q1''"
    by (simp add: kept_characters_def sanitizer_defs)
  note th = clean_table_name_identifier [OF section_label, unfolded Let_def]
  from th have len: "length (ascii ''table_2024__5___q1'') \<le> 64" by blast
  from th a have rest:
    "(\<forall>c\<in>set (ascii ''table_2024__5___q1''). identifier_char c)
     \<and> \<not> begins_with_digit (ascii ''table_2024__5___q1'')
     \<and> (begins_with_digit (str_strip tables_fragment ?s)
          \<longrightarrow> take 6 (ascii ''table_2024__5___q1'') = ascii ''table_'')"
    by blast
  with d len section_label k show ?thesis
    unfolding list_all_iff by blast
qed

text \<open>
  Against C5 as stated: the label \<^verbatim>\<open>Caf\<close> followed by U+00E9 gives the name
  \<^verbatim>\<open>caf\<close> followed by U+00E9, a character outside \<^verbatim>\<open>[a-z0-9_]\<close>.
\<close>

theorem clean_table_name_identifier_counterexample:
  "clean_table_name tables_fragment [67, 97, 102, 233] = Inr [99, 97, 102, 233]
   \<and> \<not> identifier_char 233"
  by (simp add: sanitizer_defs identifier_char_def)

text \<open>
  Claim C6, as amended. The sanitization is idempotent on every label none of whose
  non-ASCII characters is alphanumeric (every ASCII label; labels with symbols such
  as the section sign or the em dash): when \<open>clean_table_name\<close> returns a name for
  such a label, it returns that name unchanged when applied to it.
\<close>

theorem clean_table_name_idempotent:
  assumes "\<forall>c\<in>set sheet_name. c < 128 \<or> \<not> str_isalnum U c"
    and "clean_table_name U sheet_name = Inr t"
  shows "clean_table_name U t = Inr t"
proof -
  from clean_table_name_plain [OF assms]
  have "t \<noteq> []" and "\<forall>c\<in>set t. identifier_char c" and "\<not> begins_with_digit t"
    and "length t \<le> 64"
    by blast+
  then show ?thesis by (rule clean_table_name_fixed)
qed

text \<open>The label \<^verbatim>\<open>Q3 \<close>, em dash, \<^verbatim>\<open> Results\<close>.\<close>

theorem clean_table_name_idempotent_witness:
  "clean_table_name tables_fragment [81, 51, 32, 8212, 32, 82, 101, 115, 117, 108, 116, 115]
     = Inr (ascii ''q3___results'')
   \<and> clean_table_name tables_fragment (ascii ''q3___results'') = Inr (ascii ''q3___results'')"
proof -
  let ?s = "[81, 51, 32, 8212, 32, 82, 101, 115, 117, 108, 116, 115] :: pystr"
  have r: "clean_table_name tables_fragment ?s = Inr (ascii ''q3___results'')"
    by (simp add: sanitizer_defs)
  have a: "\<forall>c\<in>set ?s. c < 128 \<or> \<not> str_isalnum tables_fragment c"
    by (simp add: str_isalnum_def tables_fragment_def)
  from clean_table_name_idempotent [OF a r] r show ?thesis by simp
qed

text \<open>
  Against C6 as stated: the one-character label U+0130 gives the name U+0069 U+0307
  (lower-casing makes two code points of it), and that name gives \<^verbatim>\<open>i_\<close>, since the
  combining dot is not alphanumeric.
\<close>

theorem clean_table_name_idempotent_counterexample:
  "clean_table_name tables_fragment [304] = Inr [105, 775]
   \<and> clean_table_name tables_fragment [105, 775] = Inr [105, 95]
   \<and> [105, 95] \<noteq> [105, 775::nat]"
  by (simp add: sanitizer_defs)

text \<open>
  Claim C10. \<open>clean_table_name\<close> is partial: on a label that is empty or all
  whitespace the index access \<^verbatim>\<open>table_name[0]\<close> raises \<^verbatim>\<open>IndexError\<close> and no name
  is returned; on a label with a character that is not whitespace it returns a name.
\<close>

theorem clean_table_name_partial:
  "((\<forall>c\<in>set sheet_name. str_isspace U c) \<longrightarrow> clean_table_name U sheet_name = Inl IndexError)
   \<and> ((\<exists>c\<in>set sheet_name. \<not> str_isspace U c) \<longrightarrow> (\<exists>t. clean_table_name U sheet_name = Inr t))"
  using clean_table_name_Inl [of sheet_name U] clean_table_name_Inr [of sheet_name U]
  by blast

theorem clean_table_name_partial_witness:
  "clean_table_name tables_fragment [] = Inl IndexError
   \<and> clean_table_name tables_fragment (ascii ''   '') = Inl IndexError
   \<and> clean_table_name tables_fragment (ascii '' a '') = Inr (ascii ''a'')"
proof -
  have 1: "\<forall>c\<in>set []. str_isspace tables_fragment c" by simp
  have 2: "\<forall>c\<in>set (ascii ''   ''). str_isspace tables_fragment c"
    by (simp add: ascii_def str_isspace_def)
  have 3: "\<exists>c\<in>set (ascii '' a ''). \<not> str_isspace tables_fragment c"
    by (simp add: ascii_def str_isspace_def)
  have v: "clean_table_name tables_fragment (ascii '' a '') = Inr (ascii ''a'')"
    by (simp add: sanitizer_defs)
  from clean_table_name_partial [of "[]" tables_fragment] 1
    clean_table_name_partial [of "ascii ''   ''" tables_fragment] 2
    clean_table_name_partial [of "ascii '' a ''" tables_fragment] 3 v
  show ?thesis by blast
qed

section \<open>Properties of the migration\<close>

text \<open>
  Claim C7, as amended. For every sheet that is read with zero rows,
  \<open>migrate_sheet_to_table\<close> returns \<open>False\<close> and leaves the destination as it was,
  whatever the engine would do: the write step is not reached and no table is created.
  When the sheet's name has a character that is not whitespace, this is the deliberate
  skip: the body returns \<open>False\<close> itself, and no exception reaches the handler.
\<close>

theorem migrate_empty_sheet:
  assumes "read_excel excel_file sheet_name = Inr df" and "nrows df = 0"
  shows "migrate_sheet_to_table U column_types_mapping engine excel_file sheet_name db = (False, db)
         \<and> ((\<exists>c\<in>set sheet_name. \<not> str_isspace U c) \<longrightarrow>
              migrate_sheet_body U column_types_mapping engine excel_file sheet_name db
                = (Inr False, db))"
proof (cases "clean_table_name U sheet_name")
  case (Inl e)
  then have "\<not> (\<exists>c\<in>set sheet_name. \<not> str_isspace U c)"
    using clean_table_name_Inr [of sheet_name U] by auto
  with Inl assms show ?thesis
    by (simp add: migrate_sheet_to_table_def migrate_sheet_body_def)
next
  case (Inr table_name)
  with assms show ?thesis
    by (simp add: migrate_sheet_to_table_def migrate_sheet_body_def)
qed

theorem migrate_empty_sheet_witness:
  "migrate_sheet_to_table tables_fragment Map.empty (example_engine []) empty_book
       (ascii ''Empty'') Map.empty = (False, Map.empty)
   \<and> migrate_sheet_body tables_fragment Map.empty (example_engine []) empty_book
       (ascii ''Empty'') Map.empty = (Inr False, Map.empty)"
proof -
  have r: "read_excel empty_book (ascii ''Empty'') = Inr empty_sheet"
    by (simp add: empty_book_def)
  have z: "nrows empty_sheet = 0"
    by (simp add: empty_sheet_def)
  have c: "\<exists>c\<in>set (ascii ''Empty''). \<not> str_isspace tables_fragment c"
    by (simp add: ascii_def str_isspace_def)
  from migrate_empty_sheet [OF r z, of tables_fragment Map.empty "example_engine []" Map.empty] c
  show ?thesis by blast
qed

text \<open>
  Against C7 as stated: a sheet with zero rows whose name is a single space is not
  skipped by the check for empty sheets. \<open>clean_table_name\<close> raises \<^verbatim>\<open>IndexError\<close>
  before the rows are counted, and \<open>False\<close> comes from the exception handler.
\<close>

theorem migrate_empty_sheet_blank_name_counterexample:
  "read_excel empty_book (ascii '' '') = Inr empty_sheet \<and> nrows empty_sheet = 0
   \<and> migrate_sheet_body tables_fragment Map.empty (example_engine []) empty_book
        (ascii '' '') Map.empty = (Inl IndexError, Map.empty)"
  by (simp add: empty_book_def empty_sheet_def migrate_sheet_body_def sanitizer_defs)

text \<open>The loop adds to the two counters what \<open>sheet_results\<close> lists, and nothing else.\<close>

lemma migrate_sheets_stats:
  "fst (migrate_sheets U column_types_mapping engine excel_file names st db) =
     st\<lparr>successful := successful st
            + length (filter id (sheet_results U column_types_mapping engine excel_file names db)),
        failed := failed st
            + length (filter Not (sheet_results U column_types_mapping engine excel_file names db))\<rparr>"
proof (induction names arbitrary: st db)
  case Nil
  then show ?case by simp
next
  case (Cons sheet_name rest)
  obtain success db' where step:
    "migrate_sheet_to_table U column_types_mapping engine excel_file sheet_name db = (success, db')"
    by (cases "migrate_sheet_to_table U column_types_mapping engine excel_file sheet_name db")
  show ?case
    by (cases success) (simp_all add: step Cons.IH)
qed

lemma length_sheet_results:
  "length (sheet_results U column_types_mapping engine excel_file names db) = length names"
proof (induction names arbitrary: db)
  case Nil
  then show ?case by simp
next
  case (Cons sheet_name rest)
  then show ?case
    by (cases "migrate_sheet_to_table U column_types_mapping engine excel_file sheet_name db") simp
qed

lemma filter_id_Not_length: "length (filter id bs) + length (filter Not bs) = length bs"
  by (induction bs) auto

text \<open>The handler and the block together are one step of \<open>load_sheets\<close>.\<close>

lemma migrate_sheet_to_table_load:
  "migrate_sheet_to_table U column_types_mapping engine excel_file sheet_name db =
     (case sheet_load U column_types_mapping excel_file sheet_name of
        None \<Rightarrow> (False, db)
      | Some (table_name, rows, schema) \<Rightarrow>
          (case engine table_name rows schema db of
             (failure, db_next) \<Rightarrow> (failure = None, db_next)))"
  by (auto simp add: migrate_sheet_to_table_def migrate_sheet_body_def sheet_load_def Let_def
      split: sum.splits option.splits prod.splits)

lemma migrate_sheets_load:
  "migrate_sheets U column_types_mapping engine excel_file names st db =
     (case load_sheets U column_types_mapping engine excel_file names db of
        (outcomes, db_end) \<Rightarrow>
          (st\<lparr>successful := successful st + length (filter id outcomes),
              failed := failed st + length (filter Not outcomes)\<rparr>, db_end))"
proof (induction names arbitrary: st db)
  case Nil
  then show ?case by simp
next
  case (Cons sheet_name rest)
  show ?case
    by (simp add: migrate_sheet_to_table_load Cons.IH split: option.splits prod.splits)
qed

lemma length_load_sheets:
  "length (fst (load_sheets U column_types_mapping engine excel_file names db)) = length names"
proof (induction names arbitrary: db)
  case Nil
  then show ?case by simp
next
  case (Cons sheet_name rest)
  have rest: "length (fst (load_sheets U column_types_mapping engine excel_file rest d))
                = length rest" for d
    by (rule Cons.IH)
  show ?case
  proof (cases "sheet_load U column_types_mapping excel_file sheet_name")
    case None
    with rest [of db] show ?thesis by (auto split: prod.splits)
  next
    case (Some load)
    obtain table_name rows schema where load: "load = (table_name, rows, schema)"
      by (cases load)
    obtain failure db_next where step: "engine table_name rows schema db = (failure, db_next)"
      by (cases "engine table_name rows schema db")
    from rest [of db_next] show ?thesis
      by (auto simp add: Some load step split: prod.splits)
  qed
qed

lemma load_sheets_Cons_None:
  assumes "sheet_load U column_types_mapping excel_file sheet_name = None"
  shows "fst (load_sheets U column_types_mapping engine excel_file (sheet_name # rest) db)
           = False # fst (load_sheets U column_types_mapping engine excel_file rest db)"
    and "snd (load_sheets U column_types_mapping engine excel_file (sheet_name # rest) db)
           = snd (load_sheets U column_types_mapping engine excel_file rest db)"
  using assms by (simp_all split: prod.splits)

lemma load_sheets_Cons_Some:
  assumes "sheet_load U column_types_mapping excel_file sheet_name
             = Some (table_name, rows, schema)"
  shows "fst (load_sheets U column_types_mapping engine excel_file (sheet_name # rest) db)
           = (fst (engine table_name rows schema db) = None)
             # fst (load_sheets U column_types_mapping engine excel_file rest
                      (snd (engine table_name rows schema db)))"
    and "snd (load_sheets U column_types_mapping engine excel_file (sheet_name # rest) db)
           = snd (load_sheets U column_types_mapping engine excel_file rest
                    (snd (engine table_name rows schema db)))"
  using assms by (simp_all split: prod.splits)

text \<open>The outcome of the sheet at position \<open>i\<close>.\<close>

lemma load_sheets_nth:
  "i < length names \<Longrightarrow>
   fst (load_sheets U column_types_mapping engine excel_file names db) ! i =
     (case sheet_load U column_types_mapping excel_file (names ! i) of
        None \<Rightarrow> False
      | Some (table_name, rows, schema) \<Rightarrow>
          fst (engine table_name rows schema
                 (snd (load_sheets U column_types_mapping engine excel_file (take i names) db)))
            = None)"
proof (induction names arbitrary: i db)
  case Nil
  then show ?case by simp
next
  case (Cons sheet_name rest)
  show ?case
  proof (cases "sheet_load U column_types_mapping excel_file sheet_name")
    case None
    show ?thesis
    proof (cases i)
      case 0
      with None show ?thesis
        by (simp add: load_sheets_Cons_None del: load_sheets.simps(2))
    next
      case (Suc j)
      with Cons.prems have j: "j < length rest" by simp
      from Cons.IH [OF j, of db] show ?thesis
        by (simp add: Suc load_sheets_Cons_None [OF None] del: load_sheets.simps(2)
            cong: option.case_cong prod.case_cong)
    qed
  next
    case (Some ld)
    obtain table_name rows schema where ld: "ld = (table_name, rows, schema)"
      by (cases ld)
    note cons = load_sheets_Cons_Some [OF Some [unfolded ld]]
    show ?thesis
    proof (cases i)
      case 0
      then show ?thesis
        by (simp add: cons Some ld del: load_sheets.simps(2))
    next
      case (Suc j)
      with Cons.prems have j: "j < length rest" by simp
      from Cons.IH [OF j, of "snd (engine table_name rows schema db)"] show ?thesis
        by (simp add: Suc cons del: load_sheets.simps(2)
            cong: option.case_cong prod.case_cong)
    qed
  qed
qed

text \<open>
  Claim C8. When the connection is made and the workbook is read, \<open>migrate_all\<close>
  does what \<open>load_sheets\<close> says: the destination at the end is the one that
  \<open>load_sheets\<close> gives, there is one outcome for each sheet name, \<open>successful\<close>
  counts the sheets that succeeded, \<open>failed\<close> those that failed, and
  \<open>successful + failed = total_sheets\<close>. The sheet at each position fails when it
  has nothing to write, and otherwise is written by the engine to the destination that
  the sheets before it left, whatever their outcomes, and succeeds exactly when that
  write raises nothing: a failure is counted for the failing sheet only and stops no
  later sheet.
\<close>

theorem migrate_all_isolates_failures:
  assumes "mysql = Inr engine" and "excel = Inr excel_file"
  shows "let run = migrate_all U column_types_mapping mysql excel db;
             loads = load_sheets U column_types_mapping engine excel_file
                       (sheet_names excel_file) db
         in snd run = snd loads
            \<and> length (fst loads) = length (sheet_names excel_file)
            \<and> total_sheets (fst run) = length (sheet_names excel_file)
            \<and> successful (fst run) = length (filter id (fst loads))
            \<and> failed (fst run) = length (filter Not (fst loads))
            \<and> successful (fst run) + failed (fst run) = total_sheets (fst run)
            \<and> (\<forall>i < length (sheet_names excel_file).
                  fst loads ! i =
                    (case sheet_load U column_types_mapping excel_file
                            (sheet_names excel_file ! i) of
                       None \<Rightarrow> False
                     | Some (table_name, rows, schema) \<Rightarrow>
                         fst (engine table_name rows schema
                                (snd (load_sheets U column_types_mapping engine excel_file
                                        (take i (sheet_names excel_file)) db)))
                           = None))"
proof -
  obtain outcomes db_end where loads:
    "load_sheets U column_types_mapping engine excel_file (sheet_names excel_file) db
       = (outcomes, db_end)"
    by (cases "load_sheets U column_types_mapping engine excel_file (sheet_names excel_file) db")
  have len: "length outcomes = length (sheet_names excel_file)"
    using length_load_sheets
      [of U column_types_mapping engine excel_file "sheet_names excel_file" db]
    by (simp add: loads)
  have counters:
    "snd (migrate_all U column_types_mapping mysql excel db) = db_end
     \<and> total_sheets (fst (migrate_all U column_types_mapping mysql excel db))
         = length (sheet_names excel_file)
     \<and> successful (fst (migrate_all U column_types_mapping mysql excel db))
         = length (filter id outcomes)
     \<and> failed (fst (migrate_all U column_types_mapping mysql excel db))
         = length (filter Not outcomes)"
    using assms by (simp add: migrate_all_def migrate_sheets_load loads Let_def)
  have each: "\<forall>i < length (sheet_names excel_file).
      outcomes ! i =
        (case sheet_load U column_types_mapping excel_file (sheet_names excel_file ! i) of
           None \<Rightarrow> False
         | Some (table_name, rows, schema) \<Rightarrow>
             fst (engine table_name rows schema
                    (snd (load_sheets U column_types_mapping engine excel_file
                            (take i (sheet_names excel_file)) db)))
               = None)"
    using load_sheets_nth
      [of _ "sheet_names excel_file" U column_types_mapping engine excel_file db]
    by (simp add: loads)
  from counters len each filter_id_Not_length [of outcomes] show ?thesis
    by (simp add: loads Let_def)
qed

lemmas migration_defs =
  migrate_sheet_to_table_def migrate_sheet_body_def create_dtype_dict_def
  getitem_def infer_mysql_type_def str_len_def example_engine_def example_book_def
  example_sheet_def example_table_def Let_def

lemma example_book_names:
  "sheet_names example_book = [ascii ''Sales'', ascii ''Costs'', ascii ''Stock'']"
  by (simp add: example_book_def)

lemma example_book_Sales:
  "migrate_sheet_to_table tables_fragment Map.empty (example_engine (ascii ''costs'')) example_book
     (ascii ''Sales'') db = (True, db(ascii ''sales'' \<mapsto> example_table))"
  by (simp add: migration_defs sanitizer_defs)

lemma example_book_Costs:
  "migrate_sheet_to_table tables_fragment Map.empty (example_engine (ascii ''costs'')) example_book
     (ascii ''Costs'') db = (False, db)"
  by (simp add: migration_defs sanitizer_defs)

lemma example_book_Stock:
  "migrate_sheet_to_table tables_fragment Map.empty (example_engine (ascii ''costs'')) example_book
     (ascii ''Stock'') db = (True, db(ascii ''stock'' \<mapsto> example_table))"
  by (simp add: migration_defs sanitizer_defs)

lemma example_load:
  "sheet_load tables_fragment Map.empty example_book (ascii ''Sales'') = Some (ascii ''sales'', example_table)"
  "sheet_load tables_fragment Map.empty example_book (ascii ''Costs'') = Some (ascii ''costs'', example_table)"
  "sheet_load tables_fragment Map.empty example_book (ascii ''Stock'') = Some (ascii ''stock'', example_table)"
  by (simp_all add: sheet_load_def create_dtype_dict_def getitem_def infer_mysql_type_def
      str_len_def example_book_def example_sheet_def example_table_def Let_def sanitizer_defs)

lemma example_loads:
  "load_sheets tables_fragment Map.empty (example_engine (ascii ''costs'')) example_book
     [ascii ''Sales'', ascii ''Costs'', ascii ''Stock''] Map.empty
   = ([True, False, True],
      [ascii ''sales'' \<mapsto> example_table, ascii ''stock'' \<mapsto> example_table])"
proof -
  have ne: "ascii ''sales'' \<noteq> ascii ''costs''" "ascii ''stock'' \<noteq> ascii ''costs''"
    by (simp_all add: ascii_def)
  show ?thesis
    by (simp add: example_load example_engine_def ne)
qed

text \<open>
  Three sheets, of which the second cannot be created: two succeed, one fails, and the
  tables of the first and of the third sheet are in the destination.
\<close>

theorem migrate_all_isolates_failures_witness:
  "fst (load_sheets tables_fragment Map.empty (example_engine (ascii ''costs'')) example_book
          (sheet_names example_book) Map.empty) = [True, False, True]
   \<and> snd (migrate_all tables_fragment Map.empty (Inr (example_engine (ascii ''costs'')))
          (Inr example_book) Map.empty)
       = [ascii ''sales'' \<mapsto> example_table, ascii ''stock'' \<mapsto> example_table]
   \<and> total_sheets (fst (migrate_all tables_fragment Map.empty
        (Inr (example_engine (ascii ''costs''))) (Inr example_book) Map.empty)) = 3
   \<and> successful (fst (migrate_all tables_fragment Map.empty
        (Inr (example_engine (ascii ''costs''))) (Inr example_book) Map.empty)) = 2
   \<and> failed (fst (migrate_all tables_fragment Map.empty
        (Inr (example_engine (ascii ''costs''))) (Inr example_book) Map.empty)) = 1"
proof -
  from migrate_all_isolates_failures
    [of "Inr (example_engine (ascii ''costs''))" "example_engine (ascii ''costs'')"
        "Inr example_book" example_book tables_fragment Map.empty Map.empty]
  show ?thesis
    unfolding Let_def example_book_names example_loads by simp
qed

lemma example_book_run:
  "migrate_all tables_fragment Map.empty (Inr (example_engine (ascii ''costs'')))
       (Inr example_book) Map.empty
     = (\<lparr>total_sheets = 3, successful = 2, failed = 1, total_rows = 0\<rparr>,
        [ascii ''sales'' \<mapsto> example_table, ascii ''stock'' \<mapsto> example_table])"
  by (simp add: migrate_all_def example_book_names example_book_Sales example_book_Costs
      example_book_Stock)

text \<open>No run changes \<open>total_rows\<close>: it is 0 in every summary.\<close>

lemma migrate_all_total_rows:
  "total_rows (fst (migrate_all U column_types_mapping mysql excel db)) = 0"
  by (simp add: migrate_all_def migrate_sheets_stats Let_def split: sum.splits)

text \<open>
  Claim C9. The summary's \<open>total_rows\<close> should be the sum of the row counts of the
  migrated sheets. The code does not do that: in the run below two sheets of two rows
  each are migrated (the table \<^verbatim>\<open>sales\<close> of the destination holds two rows), and the
  summary's \<open>total_rows\<close> is 0.
\<close>

theorem migrate_all_total_rows_example:
  "fst (migrate_all tables_fragment Map.empty (Inr (example_engine (ascii ''costs'')))
          (Inr example_book) Map.empty)
     = \<lparr>total_sheets = 3, successful = 2, failed = 1, total_rows = 0\<rparr>
   \<and> map_option (nrows \<circ> fst)
        (snd (migrate_all tables_fragment Map.empty (Inr (example_engine (ascii ''costs'')))
               (Inr example_book) Map.empty) (ascii ''sales'')) = Some 2"
  unfolding example_book_run by (simp add: example_table_def ascii_def)

end
